theory Spec2Isabelle
  imports Main "HOL-Library.Word"
begin

section \<open>Values and rows\<close>

text \<open>
  \<^verbatim>\<open>struct Value { variant<int64_t, string, bool> value; ... }\<close>: the three alternatives
  of the variant, in the order of their indices. Two variants are equal (\<^verbatim>\<open>operator==\<close>)
  exactly when they hold the same alternative with the same payload, which is the
  equality of the datatype.
\<close>

datatype variant = V_int64 "64 word" | V_string string | V_bool bool

datatype Value = Value (value_of: variant)

text \<open>
  How a call can fail. \<open>out_of_range\<close> is what \<^verbatim>\<open>map::at\<close> throws for a missing key,
  \<open>bad_variant_access\<close> what \<^verbatim>\<open>std::get\<close> throws for the wrong alternative, and
  \<open>null_dereference\<close> stands for a call through a \<^verbatim>\<open>unique_ptr\<close> that holds
  \<^verbatim>\<open>nullptr\<close>. \<open>PreconditionViolation\<close> is the error kind the specification names
  for protocol misuse; no line of the source raises it.
\<close>

datatype error = out_of_range | bad_variant_access | null_dereference | PreconditionViolation

fun get_boolean :: "Value \<Rightarrow> error + bool" where
  "get_boolean (Value (V_bool b)) = Inr b"
| "get_boolean (Value (V_int64 i)) = Inl bad_variant_access"
| "get_boolean (Value (V_string s)) = Inl bad_variant_access"

text \<open>\<^verbatim>\<open>struct Row { map<string, Value> payload; }\<close>\<close>

record Row =
  payload :: "string \<rightharpoonup> Value"

section \<open>Expressions\<close>

text \<open>
  The three classes of the expression hierarchy. \<^verbatim>\<open>struct Expression\<close> has no data
  member; \<^verbatim>\<open>Variable\<close> holds a name; the two child slots of \<^verbatim>\<open>EqualExpr\<close> are declared
  \<^verbatim>\<open>unique_ptr<EqualExpr>\<close>, so each holds \<^verbatim>\<open>nullptr\<close> (\<open>None\<close>) or owns another
  \<^verbatim>\<open>EqualExpr\<close>.
\<close>

datatype Expression = Expression

datatype Variable = Variable (name: string)

datatype EqualExpr =
  EqualExpr (left_child: "EqualExpr option") (right_child: "EqualExpr option")

text \<open>
  What a \<^verbatim>\<open>unique_ptr<Expression>\<close> can own: an object of one of the three classes.
  A virtual call through the pointer runs the method of the object's class.
\<close>

datatype Expression_object =
  Expression_object Expression
| Variable_object Variable
| EqualExpr_object EqualExpr


text \<open>
  \<^verbatim>\<open>Expression::eval\<close> is declared and has no body anywhere in the repository, so the
  body is a parameter \<open>base_eval\<close> of every function that can reach it.
\<close>

fun Expression_eval :: "(Row \<Rightarrow> error + Value) \<Rightarrow> Expression \<Rightarrow> Row \<Rightarrow> error + Value" where
  "Expression_eval base_eval Expression row = base_eval row"

fun Variable_eval :: "Variable \<Rightarrow> Row \<Rightarrow> error + Value" where
  "Variable_eval (Variable nm) row =
     (case payload row nm of None \<Rightarrow> Inl out_of_range | Some v \<Rightarrow> Inr v)"

fun EqualExpr_eval :: "EqualExpr \<Rightarrow> Row \<Rightarrow> error + Value" where
  "EqualExpr_eval (EqualExpr left right) row =
     (case left of
        None \<Rightarrow> Inl null_dereference
      | Some l \<Rightarrow>
          (case EqualExpr_eval l row of
             Inl e \<Rightarrow> Inl e
           | Inr left_result \<Rightarrow>
               (case right of
                  None \<Rightarrow> Inl null_dereference
                | Some r \<Rightarrow>
                    (case EqualExpr_eval r row of
                       Inl e \<Rightarrow> Inl e
                     | Inr right_result \<Rightarrow>
                         Inr (Value (V_bool (value_of left_result = value_of right_result)))))))"

fun eval :: "(Row \<Rightarrow> error + Value) \<Rightarrow> Expression_object \<Rightarrow> Row \<Rightarrow> error + Value" where
  "eval base_eval (Expression_object e) row = Expression_eval base_eval e row"
| "eval base_eval (Variable_object v) row = Variable_eval v row"
| "eval base_eval (EqualExpr_object e) row = EqualExpr_eval e row"

text \<open>
  The two child slots of an \<^verbatim>\<open>EqualExpr\<close>, seen as pointers to expressions of any class.
\<close>

definition child_slots :: "EqualExpr \<Rightarrow> Expression_object option list" where
  "child_slots e =
     [map_option EqualExpr_object (left_child e), map_option EqualExpr_object (right_child e)]"

section \<open>Operators\<close>

text \<open>
  The members of the three operator classes. Every child is a \<^verbatim>\<open>unique_ptr<Operator>\<close>
  (\<open>None\<close> for \<^verbatim>\<open>nullptr\<close>); \<^verbatim>\<open>Filter::pred\<close> is a \<^verbatim>\<open>unique_ptr<Expression>\<close>;
  \<^verbatim>\<open>Project::projects\<close> is a \<^verbatim>\<open>vector<tuple<string, Expression>>\<close>, which stores each
  expression by value, as an object of the base class. A value \<open>Filter p c\<close> is a
  \<^verbatim>\<open>Filter\<close> object whose members \<^verbatim>\<open>pred\<close> and \<^verbatim>\<open>child\<close> hold \<open>p\<close> and \<open>c\<close>; what the
  C++ constructors make of their arguments is \<open>Scan_new\<close>, \<open>Filter_new\<close> and
  \<open>Project_new\<close> below.
\<close>

datatype Operator =
  Scan (child: "Operator option")
| Filter (pred: "Expression_object option") (child: "Operator option")
| Project (projects: "(string \<times> Expression) list") (child: "Operator option")

text \<open>
  The constructors. \<^verbatim>\<open>Filter(unique_ptr<Expression> _pred, unique_ptr<Operator> child)
  : pred(move(_pred)) {}\<close> initialises \<^verbatim>\<open>pred\<close> only: the member \<^verbatim>\<open>child\<close> is
  default-initialised to \<^verbatim>\<open>nullptr\<close> and the argument is dropped.
\<close>

definition Scan_new :: "Operator option \<Rightarrow> Operator" where
  "Scan_new c = Scan c"

definition Filter_new :: "Expression_object option \<Rightarrow> Operator option \<Rightarrow> Operator" where
  "Filter_new p c = Filter p None"

definition Project_new :: "(string \<times> Expression) list \<Rightarrow> Operator option \<Rightarrow> Operator" where
  "Project_new ps c = Project ps c"

text \<open>
  \<^verbatim>\<open>children()\<close>: \<^verbatim>\<open>Scan\<close> inherits the base body, which returns the empty vector;
  \<^verbatim>\<open>Filter\<close> and \<^verbatim>\<open>Project\<close> return \<^verbatim>\<open>{child.get()}\<close>, a null pointer included.
\<close>

fun children :: "Operator \<Rightarrow> Operator option list" where
  "children (Scan c) = []"
| "children (Filter p c) = [c]"
| "children (Project ps c) = [c]"

subsection \<open>next\<close>

text \<open>
  The loop of \<^verbatim>\<open>Project::next\<close> over \<^verbatim>\<open>projects\<close>:
  \<^verbatim>\<open>auto result = expr.eval(row); new_row.payload[name] = result;\<close>
\<close>

fun Project_loop ::
  "(Row \<Rightarrow> error + Value) \<Rightarrow> (string \<times> Expression) list \<Rightarrow> Row \<Rightarrow> Row \<Rightarrow> error + Row" where
  "Project_loop base_eval [] row new_row = Inr new_row"
| "Project_loop base_eval ((nm, expr) # rest) row new_row =
     (case Expression_eval base_eval expr row of
        Inl e \<Rightarrow> Inl e
      | Inr result \<Rightarrow>
          Project_loop base_eval rest row
            (new_row\<lparr>payload := (payload new_row)(nm \<mapsto> result)\<rparr>))"

text \<open>
  The body of \<^verbatim>\<open>Project::next\<close> after \<^verbatim>\<open>auto next = child->next();\<close>, as a function of
  what that one call returned.
\<close>

fun Project_next ::
  "(Row \<Rightarrow> error + Value) \<Rightarrow> (string \<times> Expression) list \<Rightarrow> error + Row option
     \<Rightarrow> error + Row option" where
  "Project_next base_eval ps (Inl e) = Inl e"
| "Project_next base_eval ps (Inr None) = Inr None"
| "Project_next base_eval ps (Inr (Some row)) =
     (case Project_loop base_eval ps row \<lparr>payload = Map.empty\<rparr> of
        Inl e \<Rightarrow> Inl e
      | Inr new_row \<Rightarrow> Inr (Some new_row))"

text \<open>
  The test of \<^verbatim>\<open>Filter::next\<close> on a pulled row: \<^verbatim>\<open>pred->eval(row).get_boolean()\<close>.
\<close>

definition Filter_test ::
  "(Row \<Rightarrow> error + Value) \<Rightarrow> Expression_object option \<Rightarrow> Row \<Rightarrow> error + bool" where
  "Filter_test base_eval prd row =
     (case prd of
        None \<Rightarrow> Inl null_dereference
      | Some p \<Rightarrow> (case eval base_eval p row of Inl e \<Rightarrow> Inl e | Inr v \<Rightarrow> get_boolean v))"

text \<open>
  \<^verbatim>\<open>next()\<close> on an operator. No body of \<^verbatim>\<open>next\<close> assigns to a member, so a call leaves
  the tree as it was and the result is a function of the tree. The result is
  \<open>Some (Inr (Some row))\<close> for a row, \<open>Some (Inr None)\<close> for the exhausted signal
  (\<^verbatim>\<open>return {}\<close>), \<open>Some (Inl e)\<close> for a failure. The \<^verbatim>\<open>for (;;)\<close> of \<^verbatim>\<open>Filter::next\<close>
  has no bound: the first argument counts how many times the loop may go round again,
  and \<open>None\<close> says that this was not enough.
\<close>

fun Operator_next ::
  "(Row \<Rightarrow> error + Value) \<Rightarrow> nat \<Rightarrow> Operator \<Rightarrow> (error + Row option) option" where
  "Operator_next base_eval n (Scan c) = Some (Inr None)"
| "Operator_next base_eval n (Filter p c) =
     (case c of
        None \<Rightarrow> Some (Inl null_dereference)
      | Some ch \<Rightarrow>
          (case Operator_next base_eval n ch of
             None \<Rightarrow> None
           | Some (Inl e) \<Rightarrow> Some (Inl e)
           | Some (Inr None) \<Rightarrow> Some (Inr None)
           | Some (Inr (Some row)) \<Rightarrow>
               (case Filter_test base_eval p row of
                  Inl e \<Rightarrow> Some (Inl e)
                | Inr True \<Rightarrow> Some (Inr (Some row))
                | Inr False \<Rightarrow>
                    (case n of
                       0 \<Rightarrow> None
                     | Suc m \<Rightarrow> Operator_next base_eval m (Filter p c)))))"
| "Operator_next base_eval n (Project ps c) =
     (case c of
        None \<Rightarrow> Some (Inl null_dereference)
      | Some ch \<Rightarrow> map_option (Project_next base_eval ps) (Operator_next base_eval n ch))"

subsection \<open>open and close\<close>

text \<open>
  \<^verbatim>\<open>Operator::open\<close> and \<^verbatim>\<open>Operator::close\<close> are not overridden. Each calls the same
  method on every pointer of \<^verbatim>\<open>children()\<close> and then calls itself on \<^verbatim>\<open>this\<close>. The first
  argument bounds the depth of the calls; \<open>None\<close> says that the bound was reached
  before the call returned.
\<close>

fun Operator_open :: "nat \<Rightarrow> Operator \<Rightarrow> (error + unit) option"
  and open_children :: "nat \<Rightarrow> Operator option list \<Rightarrow> (error + unit) option" where
  "Operator_open 0 this = None"
| "Operator_open (Suc n) this =
     (case open_children n (children this) of
        None \<Rightarrow> None
      | Some (Inl e) \<Rightarrow> Some (Inl e)
      | Some (Inr u) \<Rightarrow> Operator_open n this)"
| "open_children n [] = Some (Inr ())"
| "open_children n (None # rest) = Some (Inl null_dereference)"
| "open_children n (Some ch # rest) =
     (case Operator_open n ch of
        None \<Rightarrow> None
      | Some (Inl e) \<Rightarrow> Some (Inl e)
      | Some (Inr u) \<Rightarrow> open_children n rest)"

fun Operator_close :: "nat \<Rightarrow> Operator \<Rightarrow> (error + unit) option"
  and close_children :: "nat \<Rightarrow> Operator option list \<Rightarrow> (error + unit) option" where
  "Operator_close 0 this = None"
| "Operator_close (Suc n) this =
     (case close_children n (children this) of
        None \<Rightarrow> None
      | Some (Inl e) \<Rightarrow> Some (Inl e)
      | Some (Inr u) \<Rightarrow> Operator_close n this)"
| "close_children n [] = Some (Inr ())"
| "close_children n (None # rest) = Some (Inl null_dereference)"
| "close_children n (Some ch # rest) =
     (case Operator_close n ch of
        None \<Rightarrow> None
      | Some (Inl e) \<Rightarrow> Some (Inl e)
      | Some (Inr u) \<Rightarrow> close_children n rest)"

section \<open>Facts about the expressions\<close>

text \<open>
  An \<^verbatim>\<open>EqualExpr\<close> is a finite tree whose child slots hold \<^verbatim>\<open>EqualExpr\<close> objects only, so
  following left children ends at a slot that holds \<^verbatim>\<open>nullptr\<close>: \<^verbatim>\<open>left_child->eval(row)\<close>
  is then a call through a null pointer.
\<close>

lemma EqualExpr_eval_null: "EqualExpr_eval e row = Inl null_dereference"
proof (induction e)
  case (EqualExpr l r)
  show ?case
  proof (cases l)
    case None
    then show ?thesis by simp
  next
    case (Some lc)
    then have "lc \<in> set_option l" by simp
    then have "EqualExpr_eval lc row = Inl null_dereference" by (rule EqualExpr.IH(1))
    with Some show ?thesis by simp
  qed
qed

section \<open>Facts about next\<close>

text \<open>
  \<^verbatim>\<open>Scan\<close> is the only operator without a child it pulls from, and it never returns a
  row; so no tree of the three operators returns one, and the loop of \<^verbatim>\<open>Filter::next\<close>
  never goes round a second time.
\<close>

lemma Operator_next_cases:
  "Operator_next base_eval n this = Some (Inr None) \<or>
   Operator_next base_eval n this = Some (Inl null_dereference)"
proof (induction this arbitrary: n)
  case (Scan c)
  show ?case by simp
next
  case (Filter p c)
  show ?case
  proof (cases c)
    case None
    then show ?thesis by simp
  next
    case (Some ch)
    then have "ch \<in> set_option c" by simp
    from Filter.IH [OF this, of n] Some show ?thesis by auto
  qed
next
  case (Project ps c)
  show ?case
  proof (cases c)
    case None
    then show ?thesis by simp
  next
    case (Some ch)
    then have "ch \<in> set_option c" by simp
    from Project.IH [OF this, of n] Some show ?thesis by auto
  qed
qed

lemma Operator_next_fuel: "Operator_next base_eval n this = Operator_next base_eval m this"
proof (induction this)
  case (Scan c)
  show ?case by simp
next
  case (Filter p c)
  show ?case
  proof (cases c)
    case None
    then show ?thesis by simp
  next
    case (Some ch)
    then have in_c: "ch \<in> set_option c" by simp
    have same: "Operator_next base_eval n ch = Operator_next base_eval m ch"
      by (rule Filter.IH [OF in_c])
    from Operator_next_cases [of base_eval m ch] same Some show ?thesis by auto
  qed
next
  case (Project ps c)
  show ?case
  proof (cases c)
    case None
    then show ?thesis by simp
  next
    case (Some ch)
    then have "ch \<in> set_option c" by simp
    from Project.IH [OF this] Some show ?thesis by simp
  qed
qed

section \<open>Facts about open and close\<close>

text \<open>
  The last statement of \<^verbatim>\<open>Operator::open\<close> is the call \<^verbatim>\<open>open();\<close> on the same object, and
  likewise for \<^verbatim>\<open>close\<close>: whatever the bound, a call ends at the bound or at a null
  child, never by returning.
\<close>

lemma open_children_cases:
  assumes "\<And>ch. Operator_open n ch = None \<or> Operator_open n ch = Some (Inl null_dereference)"
  shows "open_children n cs = None \<or> open_children n cs = Some (Inl null_dereference) \<or>
         open_children n cs = Some (Inr ())"
proof (cases cs)
  case Nil
  then show ?thesis by simp
next
  case (Cons c rest)
  show ?thesis
  proof (cases c)
    case None
    with Cons show ?thesis by simp
  next
    case (Some ch)
    with Cons assms [of ch] show ?thesis by auto
  qed
qed

lemma Operator_open_cases:
  "Operator_open n this = None \<or> Operator_open n this = Some (Inl null_dereference)"
proof (induction n arbitrary: this)
  case 0
  show ?case by simp
next
  case (Suc n)
  from open_children_cases [of n "children this", OF Suc.IH] Suc.IH [of this]
  show ?case by auto
qed

lemma close_children_cases:
  assumes "\<And>ch. Operator_close n ch = None \<or> Operator_close n ch = Some (Inl null_dereference)"
  shows "close_children n cs = None \<or> close_children n cs = Some (Inl null_dereference) \<or>
         close_children n cs = Some (Inr ())"
proof (cases cs)
  case Nil
  then show ?thesis by simp
next
  case (Cons c rest)
  show ?thesis
  proof (cases c)
    case None
    with Cons show ?thesis by simp
  next
    case (Some ch)
    with Cons assms [of ch] show ?thesis by auto
  qed
qed

lemma Operator_close_cases:
  "Operator_close n this = None \<or> Operator_close n this = Some (Inl null_dereference)"
proof (induction n arbitrary: this)
  case 0
  show ?case by simp
next
  case (Suc n)
  from close_children_cases [of n "children this", OF Suc.IH] Suc.IH [of this]
  show ?case by auto
qed

lemma Scan_open: "Operator_open n (Scan c) = None"
  by (induction n) simp_all

lemma Scan_close: "Operator_close n (Scan c) = None"
  by (induction n) simp_all

lemma slot_holds_EqualExpr:
  "Some c = map_option EqualExpr_object slot \<Longrightarrow> \<exists>x. c = EqualExpr_object x"
  by (cases slot) auto

section \<open>The claims about expressions\<close>

text \<open>
  Claim C6 says that \<^verbatim>\<open>EqualExpr::eval\<close> returns, for every Equal expression and every
  row, the boolean Value of the comparison of its two children's Values. The source
  compares the two variants by content, but it never gets that far: the smallest Equal
  expression, \<^verbatim>\<open>EqualExpr(nullptr, nullptr)\<close>, calls \<^verbatim>\<open>eval\<close> through its null left child,
  and no Equal expression at all evaluates to a Value.
\<close>

theorem EqualExpr_eval_returns_no_Value:
  "EqualExpr_eval (EqualExpr None None) row = Inl null_dereference \<and>
   EqualExpr_eval e row \<noteq> Inr v"
  using EqualExpr_eval_null [of e row] by simp

text \<open>
  Claim C8 says that \<^verbatim>\<open>Equal(e, e).eval(r)\<close> is the boolean true Value and that
  \<^verbatim>\<open>Equal(a, b).eval(r)\<close> equals \<^verbatim>\<open>Equal(b, a).eval(r)\<close>. In the source the first is never
  the true Value, for any \<open>e\<close> the child slots can hold; the two sides of the second are
  equal only in that both calls fail at a null child.
\<close>

theorem EqualExpr_eval_not_reflexive:
  "EqualExpr_eval (EqualExpr (Some e) (Some e)) row \<noteq> Inr (Value (V_bool True)) \<and>
   EqualExpr_eval (EqualExpr a b) row = EqualExpr_eval (EqualExpr b a) row"
  by (simp only: EqualExpr_eval_null) simp

text \<open>
  Claim C10: every child of an Equal expression node is itself an Equal expression node.
  Whatever a child slot of an \<^verbatim>\<open>EqualExpr\<close> holds is an \<^verbatim>\<open>EqualExpr\<close> object, never a
  \<^verbatim>\<open>Variable\<close> and never an object of the base class; so neither the left nor the right
  slot of any \<^verbatim>\<open>EqualExpr\<close> holds a \<^verbatim>\<open>Variable\<close>, and \<^verbatim>\<open>Equal(Variable(n), x)\<close> is not
  a value of the type.
\<close>

theorem EqualExpr_children_are_EqualExpr:
  "(Some c \<in> set (child_slots e) \<longrightarrow>
      (\<exists>x. c = EqualExpr_object x) \<and> c \<noteq> Variable_object v \<and> c \<noteq> Expression_object b) \<and>
   child_slots e ! 0 \<noteq> Some (Variable_object v) \<and>
   child_slots e ! 1 \<noteq> Some (Variable_object v)"
proof -
  have slots: "\<exists>x. c' = EqualExpr_object x" if "Some c' \<in> set (child_slots e)" for c'
  proof -
    from that have "Some c' = map_option EqualExpr_object (left_child e) \<or>
        Some c' = map_option EqualExpr_object (right_child e)"
      by (simp add: child_slots_def)
    then show ?thesis by (blast dest: slot_holds_EqualExpr)
  qed
  have "child_slots e ! 0 \<in> set (child_slots e)" "child_slots e ! 1 \<in> set (child_slots e)"
    by (simp_all add: child_slots_def)
  with slots [of "Variable_object v"] slots [of c] show ?thesis by auto
qed

theorem EqualExpr_children_are_EqualExpr_witness:
  "Some (EqualExpr_object (EqualExpr None None))
     \<in> set (child_slots (EqualExpr (Some (EqualExpr None None)) None)) \<and>
   EqualExpr_object (EqualExpr None None) \<noteq> Variable_object (Variable ''n'')"
  using EqualExpr_children_are_EqualExpr [of "EqualExpr_object (EqualExpr None None)"
      "EqualExpr (Some (EqualExpr None None)) None" "Variable ''n''" Expression]
  by (simp add: child_slots_def)

section \<open>The claims about next\<close>

text \<open>
  Claim C1 says that \<^verbatim>\<open>Filter::next\<close> pulls rows from the child operator supplied at
  construction. The constructor drops that operator, so \<^verbatim>\<open>next\<close> on any constructed
  \<^verbatim>\<open>Filter\<close> calls \<^verbatim>\<open>child->next()\<close> through a null pointer. With a \<^verbatim>\<open>Scan\<close> as the
  supplied child the claim expects the exhausted signal, which is what the same object
  returns once its member \<^verbatim>\<open>child\<close> does hold the \<^verbatim>\<open>Scan\<close>.
\<close>

theorem Filter_next_drops_supplied_child:
  "Operator_next base_eval n (Filter_new p c) = Some (Inl null_dereference) \<and>
   Operator_next base_eval n (Filter p (Some (Scan_new c'))) = Some (Inr None)"
  by (simp add: Filter_new_def Scan_new_def)

text \<open>
  Claim C4 says that \<^verbatim>\<open>next\<close> before \<^verbatim>\<open>open\<close> or after \<^verbatim>\<open>close\<close>, and a second \<^verbatim>\<open>open\<close>, fail
  with PreconditionViolation. The operators have no member that records whether they
  are open, and nothing raises that error: \<^verbatim>\<open>next\<close> on a \<^verbatim>\<open>Scan\<close> that was constructed and
  never opened returns the exhausted signal.
\<close>

theorem Scan_next_before_open_counterexample:
  "Operator_next (\<lambda>row. Inr (Value (V_bool True))) 0 (Scan_new None) = Some (Inr None) \<and>
   Operator_next (\<lambda>row. Inr (Value (V_bool True))) 0 (Scan_new None)
     \<noteq> Some (Inl PreconditionViolation)"
  by (simp add: Scan_new_def)

text \<open>
  Claim C4 as amended: no call of \<^verbatim>\<open>next\<close>, \<^verbatim>\<open>open\<close> or \<^verbatim>\<open>close\<close> on any operator tree fails
  with PreconditionViolation. (The outcome of \<^verbatim>\<open>next\<close> is a function of the tree, which
  no call changes, so it is the same before \<^verbatim>\<open>open\<close>, after \<^verbatim>\<open>close\<close> and in between.)
\<close>

theorem no_PreconditionViolation:
  "Operator_next base_eval n this \<noteq> Some (Inl PreconditionViolation) \<and>
   Operator_open n this \<noteq> Some (Inl PreconditionViolation) \<and>
   Operator_close n this \<noteq> Some (Inl PreconditionViolation)"
  using Operator_next_cases [of base_eval n this] Operator_open_cases [of n this]
    Operator_close_cases [of n this]
  by auto


text \<open>
  Claim C7: once a call of \<^verbatim>\<open>next\<close> on a \<^verbatim>\<open>Scan\<close>, \<^verbatim>\<open>Filter\<close> or \<^verbatim>\<open>Project\<close> has returned the
  exhausted signal, every later call returns it too. A call leaves the tree as it was,
  so a later call is a call on the same tree, with whatever bound \<open>m\<close> on its loops.
\<close>

theorem next_exhausted_stays_exhausted:
  "Operator_next base_eval n this = Some (Inr None) \<Longrightarrow>
   Operator_next base_eval m this = Some (Inr None)"
  using Operator_next_fuel [of base_eval n this m] by simp

theorem next_exhausted_stays_exhausted_witness:
  "Operator_next (\<lambda>row. Inr (Value (V_bool True))) 0
     (Project_new [(''n'', Expression)]
        (Some (Filter (Some (Variable_object (Variable ''name''))) (Some (Scan_new None)))))
     = Some (Inr None) \<and>
   Operator_next (\<lambda>row. Inr (Value (V_bool True))) 1
     (Project_new [(''n'', Expression)]
        (Some (Filter (Some (Variable_object (Variable ''name''))) (Some (Scan_new None)))))
     = Some (Inr None)"
  using next_exhausted_stays_exhausted [of "\<lambda>row. Inr (Value (V_bool True))" 0
      "Project_new [(''n'', Expression)]
         (Some (Filter (Some (Variable_object (Variable ''name''))) (Some (Scan_new None))))" 1]
  by (simp add: Project_new_def Scan_new_def)

text \<open>
  Claim C9: \<^verbatim>\<open>Scan::next\<close> returns the exhausted signal on every call, whatever child
  operator the \<^verbatim>\<open>Scan\<close> was constructed with.
\<close>

theorem Scan_next_exhausted: "Operator_next base_eval n (Scan_new c) = Some (Inr None)"
  by (simp add: Scan_new_def)

section \<open>The claims about open and close\<close>

text \<open>
  Claim C2 says that \<^verbatim>\<open>open()\<close> opens the children, then initialises the node, and
  terminates on every finite tree. In the source the step after the children is a call
  of \<^verbatim>\<open>open()\<close> on the node itself: on a \<^verbatim>\<open>Scan\<close>, which has no children to open, the call
  reaches every bound, and on no operator does it return.
\<close>

theorem Operator_open_never_returns:
  "Operator_open n (Scan_new c) = None \<and> Operator_open n this \<noteq> Some (Inr ())"
  using Scan_open [of n c] Operator_open_cases [of n this] by (auto simp: Scan_new_def)

text \<open>
  Claim C3 says that \<^verbatim>\<open>close()\<close> tears the node down, then closes the children, and
  terminates on every finite tree. In the source the children come first and the step
  after them is a call of \<^verbatim>\<open>close()\<close> on the node itself: on a \<^verbatim>\<open>Scan\<close> the call reaches
  every bound, and on no operator does it return.
\<close>

theorem Operator_close_never_returns:
  "Operator_close n (Scan_new c) = None \<and> Operator_close n this \<noteq> Some (Inr ())"
  using Scan_close [of n c] Operator_close_cases [of n this] by (auto simp: Scan_new_def)

end
